theory Spec2Isabelle
  imports Main "HOL-Library.Sublist"
begin

section \<open>Values shared by the two scripts\<close>

text \<open>
  The repository holds two stand-alone Python scripts, \<^verbatim>\<open>tools/parse_onnx.py\<close> (the
  graph-node dump utility) and \<^verbatim>\<open>tools/create_and_save_model.py\<close> (the build-train-save
  demo). A Python \<^verbatim>\<open>str\<close> is a \<^typ>\<open>string\<close>; one \<^typ>\<open>char\<close> stands for one code point
  below 256.
\<close>

datatype py_error =
    IndentationError string nat
  | FileNotFoundError string
  | IsADirectoryError string
  | DecodeError string
  | ValidationError string

text \<open>
  The Python values that \<^verbatim>\<open>parse_onnx.py\<close> hands to \<^verbatim>\<open>json.dumps\<close>: \<^verbatim>\<open>None\<close>, a
  \<^verbatim>\<open>str\<close>, a \<^verbatim>\<open>list\<close> and a \<^verbatim>\<open>dict\<close> with \<^verbatim>\<open>str\<close> keys. A \<^verbatim>\<open>dict\<close> keeps the order
  in which its keys were inserted, so it is an association list.
\<close>

datatype json =
    JNull
  | JStr string
  | JList "json list"
  | JDict "(string \<times> json) list"

fun json_get :: "string \<Rightarrow> json \<Rightarrow> json option" where
  "json_get k (JDict kvs) = map_of kvs k"
| "json_get k _ = None"

fun json_keys :: "json \<Rightarrow> string list" where
  "json_keys (JDict kvs) = map fst kvs"
| "json_keys _ = []"

section \<open>The library calls of \<^verbatim>\<open>parse_onnx.py\<close>\<close>

subsection \<open>\<^verbatim>\<open>json.dumps(obj, indent=4)\<close>\<close>

text \<open>
  The standard library's encoder with its defaults (\<^verbatim>\<open>ensure_ascii=True\<close>, keys in
  insertion order) and an indent: the item separator is a comma followed by a new line
  and the indentation, the key separator is a colon and a space, an empty container is
  \<^verbatim>\<open>[]\<close> or \<^verbatim>\<open>{}\<close>. In a string, the backslash, the double quote and every character
  outside the range from the space to the tilde are escaped.
\<close>

definition hex_digit :: "nat \<Rightarrow> char" where
  "hex_digit n = ''0123456789abcdef'' ! (n mod 16)"

definition hex4 :: "nat \<Rightarrow> string" where
  "hex4 n = [hex_digit (n div 4096), hex_digit (n div 256), hex_digit (n div 16), hex_digit n]"

definition escape_char :: "char \<Rightarrow> string" where
  "escape_char c =
     (if c = CHR 0x5C then [CHR 0x5C, CHR 0x5C]
      else if c = CHR 0x22 then [CHR 0x5C, CHR 0x22]
      else if c = CHR 0x08 then [CHR 0x5C, CHR ''b'']
      else if c = CHR 0x0C then [CHR 0x5C, CHR ''f'']
      else if c = CHR 0x0A then [CHR 0x5C, CHR ''n'']
      else if c = CHR 0x0D then [CHR 0x5C, CHR ''r'']
      else if c = CHR 0x09 then [CHR 0x5C, CHR ''t'']
      else if (of_char c :: nat) < 32 \<or> 126 < (of_char c :: nat)
        then [CHR 0x5C, CHR ''u''] @ hex4 (of_char c)
      else [c])"

definition encode_basestring_ascii :: "string \<Rightarrow> string" where
  "encode_basestring_ascii s = [CHR 0x22] @ concat (map escape_char s) @ [CHR 0x22]"

definition newline_indent :: "nat \<Rightarrow> nat \<Rightarrow> string" where
  "newline_indent indent level = CHR 0x0A # replicate (indent * level) CHR '' ''"

fun join :: "string \<Rightarrow> string list \<Rightarrow> string" where
  "join sep [] = []"
| "join sep [x] = x"
| "join sep (x # y # ys) = x @ sep @ join sep (y # ys)"

fun iterencode :: "nat \<Rightarrow> nat \<Rightarrow> json \<Rightarrow> string" where
  "iterencode indent level JNull = ''null''"
| "iterencode indent level (JStr s) = encode_basestring_ascii s"
| "iterencode indent level (JList xs) =
     (if xs = [] then ''[]''
      else ''['' @ newline_indent indent (Suc level)
        @ join ('','' @ newline_indent indent (Suc level))
            (map (iterencode indent (Suc level)) xs)
        @ newline_indent indent level @ '']'')"
| "iterencode indent level (JDict kvs) =
     (if kvs = [] then ''{}''
      else ''{'' @ newline_indent indent (Suc level)
        @ join ('','' @ newline_indent indent (Suc level))
            (map (\<lambda>(k, v). encode_basestring_ascii k @ '': ''
                    @ iterencode indent (Suc level) v) kvs)
        @ newline_indent indent level @ ''}'')"

definition json_dumps :: "json \<Rightarrow> nat \<Rightarrow> string" where
  "json_dumps obj indent = iterencode indent 0 obj"

subsection \<open>\<^verbatim>\<open>onnx.load(path)\<close>\<close>

text \<open>
  The fields of the parsed model that the script reads: the model's \<^verbatim>\<open>domain\<close>, its
  graph's \<^verbatim>\<open>name\<close> and, for each node of the graph's repeated field \<^verbatim>\<open>node\<close>, the
  node's \<^verbatim>\<open>name\<close> and \<^verbatim>\<open>op_type\<close>.
\<close>

record node_proto =
  name :: string
  op_type :: string

record graph_proto =
  name :: string
  node :: "node_proto list"

record model_proto =
  graph :: graph_proto
  domain :: string

text \<open>
  What a path of the file system holds: a directory, a regular file that decodes to a
  model, or a regular file that does not. A path outside the domain of the file system
  does not exist. A model file may keep the data of its tensors outside itself: with the
  model, \<^verbatim>\<open>ModelFile\<close> carries the \<^verbatim>\<open>location\<close> entries of the tensors stored externally, in
  the order in which the library visits the tensors.
\<close>

datatype file_content = ModelFile model_proto "string list" | OtherFile | Directory

type_synonym filesystem = "string \<rightharpoonup> file_content"

definition is_file :: "filesystem \<Rightarrow> string \<Rightarrow> bool" where
  "is_file fs path =
     (case fs path of
        None \<Rightarrow> False
      | Some Directory \<Rightarrow> False
      | Some OtherFile \<Rightarrow> True
      | Some (ModelFile model locations) \<Rightarrow> True)"

text \<open>
  \<^verbatim>\<open>os.path.dirname\<close> and \<^verbatim>\<open>os.path.join\<close> on a POSIX system: the directory of a path is
  what stands before its last slash, without trailing slashes unless it consists of
  slashes only; joining puts one slash between the two parts, and an absolute second part
  replaces the first.
\<close>

definition dirname :: "string \<Rightarrow> string" where
  "dirname p =
     (let head = rev (dropWhile (\<lambda>c. c \<noteq> CHR ''/'') (rev p))
      in if dropWhile (\<lambda>c. c = CHR ''/'') head = [] then head
         else rev (dropWhile (\<lambda>c. c = CHR ''/'') (rev head)))"

definition path_join :: "string \<Rightarrow> string \<Rightarrow> string" where
  "path_join a b =
     (if take 1 b = ''/'' then b
      else if a = [] then b
      else if last a = CHR ''/'' then a @ b
      else a @ ''/'' @ b)"

text \<open>
  \<^verbatim>\<open>onnx.load(path)\<close> opens the file and decodes it; then, since \<^verbatim>\<open>load_external_data\<close> is
  true by default, it reads the data of every tensor stored externally from the file at
  the tensor's location, taken relative to the directory of the model file. The library
  refuses a location that is empty, absolute or has \<^verbatim>\<open>..\<close> in it, and one at which there is
  no regular file, with a \<^verbatim>\<open>ValidationError\<close> of its checker; the first tensor that fails
  ends the load. Opening a directory as the model raises \<^verbatim>\<open>IsADirectoryError\<close>, and bytes
  that are no model raise the \<^verbatim>\<open>DecodeError\<close> of the decoder.
\<close>

fun has_dotdot :: "string \<Rightarrow> bool" where
  "has_dotdot (a # b # cs) = (if a = CHR ''.'' \<and> b = CHR ''.'' then True else has_dotdot (b # cs))"
| "has_dotdot cs = False"

definition bad_location :: "string \<Rightarrow> bool" where
  "bad_location location =
     (if location = [] then True
      else if take 1 location = ''/'' then True
      else has_dotdot location)"

fun load_external_data_for_model :: "filesystem \<Rightarrow> string \<Rightarrow> string list \<Rightarrow> py_error option" where
  "load_external_data_for_model fs base_dir [] = None"
| "load_external_data_for_model fs base_dir (location # locations) =
     (if bad_location location then Some (ValidationError location)
      else if is_file fs (path_join base_dir location)
        then load_external_data_for_model fs base_dir locations
      else Some (ValidationError location))"

definition onnx_load :: "filesystem \<Rightarrow> string \<Rightarrow> py_error + model_proto" where
  "onnx_load fs path =
     (case fs path of
        None \<Rightarrow> Inl (FileNotFoundError path)
      | Some Directory \<Rightarrow> Inl (IsADirectoryError path)
      | Some OtherFile \<Rightarrow> Inl (DecodeError path)
      | Some (ModelFile model locations) \<Rightarrow>
          (case load_external_data_for_model fs (dirname path) locations of
             Some e \<Rightarrow> Inl e
           | None \<Rightarrow> Inr model))"

section \<open>\<^verbatim>\<open>tools/parse_onnx.py\<close>\<close>

text \<open>
  What the process does to the outside: the strings handed to \<^verbatim>\<open>print\<close> (each call
  writes one entry to standard output), the uncaught exception whose traceback the
  interpreter writes to standard error, and the paths handed to \<^verbatim>\<open>onnx.load\<close>, the
  only call of the script that reads files (which files the library opens in such a call
  is said in \<^verbatim>\<open>onnx_load\<close>).
\<close>

record io =
  stdout :: "string list"
  stderr :: "py_error list"
  opened :: "string list"

definition io0 :: io where
  "io0 = \<lparr>stdout = [], stderr = [], opened = []\<rparr>"

definition print :: "string \<Rightarrow> io \<Rightarrow> io" where
  "print s w = w\<lparr>stdout := stdout w @ [s]\<rparr>"

definition load :: "filesystem \<Rightarrow> string \<Rightarrow> io \<Rightarrow> (py_error + model_proto) \<times> io" where
  "load fs path w = (onnx_load fs path, w\<lparr>opened := opened w @ [path]\<rparr>)"

text \<open>Lines 21 to 26: the record of one node.\<close>

definition layer :: "node_proto \<Rightarrow> json" where
  "layer n = JDict
     [(''name'', JStr (node_proto.name n)),
      (''type'', JStr (op_type n)),
      (''parameters'', JDict []),
      (''weights'', JNull)]"

text \<open>Line 27, \<^verbatim>\<open>output["layers"].append(layer)\<close>: the list under the key grows in place.\<close>

fun append_item :: "json \<Rightarrow> json \<Rightarrow> json" where
  "append_item (JList xs) x = JList (xs @ [x])"
| "append_item v x = v"

fun layers_append :: "json \<Rightarrow> json \<Rightarrow> json" where
  "layers_append (JDict kvs) l =
     JDict (map (\<lambda>(k, v). if k = ''layers'' then (k, append_item v l) else (k, v)) kvs)"
| "layers_append v l = v"

text \<open>Lines 13 to 27: the dictionary, then the loop over the nodes in graph order.\<close>

fun for_node :: "node_proto list \<Rightarrow> json \<Rightarrow> json" where
  "for_node [] output = output"
| "for_node (n # ns) output = for_node ns (layers_append output (layer n))"

definition build_output :: "model_proto \<Rightarrow> json" where
  "build_output model =
     (let output = JDict
        [(''name'', JStr (graph_proto.name (graph model))),
         (''type'', JStr ''ONNX''),
         (''architecture'', JStr (domain model)),
         (''layers'', JList [])]
      in for_node (node (graph model)) output)"

definition main :: "filesystem \<Rightarrow> string list \<Rightarrow> io \<Rightarrow> (py_error + unit) \<times> io" where
  "main fs argv w =
     (if length argv < 2 then (Inr (), print ''Usage: python parse_onnx.py <model_path>'' w)
      else
        let model_path = argv ! 1
        in case load fs model_path w of
             (Inl e, w1) \<Rightarrow> (Inl e, w1)
           | (Inr model, w1) \<Rightarrow> (Inr (), print (json_dumps (build_output model) 4) w1))"

text \<open>
  Lines 31 and 32, the script run as a program: when \<^verbatim>\<open>main\<close> returns, the interpreter
  exits with status 0; an exception that nothing catches is reported on standard error
  and the exit status is 1.
\<close>

definition parse_onnx :: "filesystem \<Rightarrow> string list \<Rightarrow> nat \<times> io" where
  "parse_onnx fs argv =
     (case main fs argv io0 of
        (Inr u, w) \<Rightarrow> (0, w)
      | (Inl e, w) \<Rightarrow> (1, w\<lparr>stderr := stderr w @ [e]\<rparr>))"

text \<open>
  The first command-line argument, when there is one: \<^verbatim>\<open>sys.argv[0]\<close> is the name of the
  program.
\<close>

definition first_argument :: "string list \<Rightarrow> string option" where
  "first_argument argv = (if length argv < 2 then None else Some (argv ! 1))"

section \<open>\<^verbatim>\<open>tools/create_and_save_model.py\<close>\<close>

subsection \<open>How the interpreter reads the indentation of a script\<close>

text \<open>
  The script has no function except \<^verbatim>\<open>create_simple_model\<close> and takes no input: it is a
  sequence of statements, each of which calls TensorFlow, NumPy, \<^verbatim>\<open>os\<close> or \<^verbatim>\<open>print\<close>.
  It is modelled as its logical lines (blank lines and comments left out, a bracketed
  expression over several physical lines counted once, at its first line). Of each line
  the model keeps the number of its first physical line, the column where it starts,
  whether it is the header of a compound statement (it ends with a colon and its body
  follows on the next lines), and the calls it makes when it runs.
\<close>

datatype part = Lit string | Expr string

text \<open>
  \<^verbatim>\<open>Dense units activation input_shape\<close> is a layer of the network; \<^verbatim>\<open>Compile\<close> carries the
  optimizer, the loss and the metrics; \<^verbatim>\<open>Random_rand\<close> and \<^verbatim>\<open>Random_randint\<close> carry the
  bounds and the shape of the array drawn; \<^verbatim>\<open>Fit\<close> carries \<^verbatim>\<open>epochs\<close> and \<^verbatim>\<open>verbose\<close>;
  \<^verbatim>\<open>Save\<close>, \<^verbatim>\<open>Os_walk\<close> and \<^verbatim>\<open>Load\<close> carry the path.
\<close>

datatype dense = Dense nat string "nat option"

datatype call =
    Import string
  | Sequential "dense list"
  | Compile string string "string list"
  | Random_rand nat nat
  | Random_randint nat nat nat nat
  | Fit nat nat
  | Save string
  | Os_walk string
  | Load string
  | Call_loaded_model
  | Print "part list"

record logical_line =
  lineno :: nat
  column :: nat
  opens_block :: bool
  calls :: "call list"

text \<open>
  The interpreter compiles the whole file before it runs the first statement. Its
  tokenizer keeps a stack of indentation columns, 0 at the bottom. A line that starts
  right of the top of the stack opens a block, which the grammar allows after a header
  only; a line that starts left of it closes blocks and must land on a column of the
  stack; after a header, a block must open.
\<close>

fun unindent :: "nat \<Rightarrow> nat list \<Rightarrow> nat list option" where
  "unindent c [] = None"
| "unindent c (t # stack) =
     (if c = t then Some (t # stack) else if c < t then unindent c stack else None)"

fun check_indentation ::
  "nat list \<Rightarrow> bool \<Rightarrow> nat \<Rightarrow> logical_line list \<Rightarrow> py_error option" where
  "check_indentation stack expect prev [] =
     (if expect then Some (IndentationError ''expected an indented block'' (Suc prev))
      else None)"
| "check_indentation stack expect prev (l # ls) =
     (if (case stack of [] \<Rightarrow> 0 | t # _ \<Rightarrow> t) < column l then
        (if expect then check_indentation (column l # stack) (opens_block l) (lineno l) ls
         else Some (IndentationError ''unexpected indent'' (lineno l)))
      else if expect then Some (IndentationError ''expected an indented block'' (lineno l))
      else (case unindent (column l) stack of
              None \<Rightarrow> Some (IndentationError
                ''unindent does not match any outer indentation level'' (lineno l))
            | Some stack' \<Rightarrow> check_indentation stack' (opens_block l) (lineno l) ls))"

text \<open>
  Running a script: a file that does not compile raises before any statement runs;
  otherwise the calls are made in the order of the lines (what the libraries do in a
  call, and whether one of them raises, is outside the script).
\<close>

definition python :: "logical_line list \<Rightarrow> (py_error + unit) \<times> call list" where
  "python script =
     (case check_indentation [0] False 0 script of
        Some e \<Rightarrow> (Inl e, [])
      | None \<Rightarrow> (Inr (), concat (map calls script)))"

subsection \<open>The script\<close>

text \<open>
  The lines of \<^verbatim>\<open>create_and_save_model.py\<close>. The calls listed are those of the
  statements at the top level, which run once each: the body of
  \<^verbatim>\<open>create_simple_model\<close> (lines 6 to 10) runs in the call on line 13, and the bodies of the
  two loops (lines 40 to 45) print one line for each directory and file that \<^verbatim>\<open>os.walk\<close>
  returns. In a \<^verbatim>\<open>Print\<close>, a replacement field of a formatted string is kept as its
  expression. Line 54 starts in column 1.
\<close>

definition stmt :: "nat \<Rightarrow> nat \<Rightarrow> call list \<Rightarrow> logical_line" where
  "stmt n c cs = \<lparr>lineno = n, column = c, opens_block = False, calls = cs\<rparr>"

definition header :: "nat \<Rightarrow> nat \<Rightarrow> call list \<Rightarrow> logical_line" where
  "header n c cs = \<lparr>lineno = n, column = c, opens_block = True, calls = cs\<rparr>"

definition model_save_path :: string where
  "model_save_path = ''./simple_tf_model''"

definition create_and_save_model :: "logical_line list" where
  "create_and_save_model =
    [stmt 1 0 [Import ''tensorflow''],
     stmt 2 0 [Import ''os''],
     header 5 0 [],
     stmt 6 4 [],
     stmt 10 4 [],
     stmt 13 0 [Sequential [Dense 10 ''relu'' (Some 5), Dense 1 ''sigmoid'' None]],
     stmt 16 0 [Compile ''adam'' ''binary_crossentropy'' [''accuracy'']],
     stmt 19 0 [Import ''numpy''],
     stmt 20 0 [Random_rand 100 5],
     stmt 21 0 [Random_randint 0 2 100 1],
     stmt 24 0 [Print [Lit ''Training the model...'']],
     stmt 25 0 [Fit 5 0],
     stmt 26 0 [Print [Lit ''Model training complete.'']],
     stmt 29 0 [],
     stmt 33 0 [Print [Lit ''Saving the model to: '', Expr ''model_save_path'']],
     stmt 34 0 [Save model_save_path],
     stmt 35 0 [Print [Lit ''Model saved successfully.'']],
     stmt 38 0 [Print [Lit (''Contents of the saved model directory '' @ [CHR 0x27]),
                       Expr ''model_save_path'', Lit (CHR 0x27 # '':'')]],
     header 39 0 [Os_walk model_save_path],
     stmt 40 4 [],
     stmt 41 4 [],
     stmt 42 4 [],
     stmt 43 4 [],
     header 44 4 [],
     stmt 45 8 [],
     stmt 48 0 [Print [Lit (CHR 0x0A # ''Loading the model from: ''),
                       Expr ''model_save_path'']],
     stmt 49 0 [Load model_save_path],
     stmt 50 0 [Print [Lit ''Model loaded successfully.'']],
     stmt 54 1 [Random_rand 1 5],
     stmt 55 0 [Print [Lit ''Dummy input for prediction: '', Expr ''dummy_input'']],
     stmt 58 0 [Call_loaded_model],
     stmt 59 0 [Print [Lit ''Predictions from loaded model: '',
                       Expr ''predictions.numpy()'']]]"

section \<open>Example inputs\<close>

definition example_model :: model_proto where
  "example_model =
     \<lparr>graph = \<lparr>graph_proto.name = ''tiny'',
                node = [\<lparr>node_proto.name = ''conv0'', op_type = ''Conv''\<rparr>,
                        \<lparr>node_proto.name = ''relu0'', op_type = ''Relu''\<rparr>]\<rparr>,
      domain = ''ai.example''\<rparr>"

definition example_fs :: filesystem where
  "example_fs =
     [''model.onnx'' \<mapsto> ModelFile example_model [''weights.bin''],
      ''weights.bin'' \<mapsto> OtherFile,
      ''notes.txt'' \<mapsto> OtherFile]"

definition example_argv :: "string list" where
  "example_argv = [''parse_onnx.py'', ''model.onnx'']"

section \<open>The document built by \<^verbatim>\<open>parse_onnx.py\<close>\<close>

text \<open>
  The loop of lines 20 to 27 leaves the first three entries of the dictionary alone and
  appends one record for each node, in the order of the nodes.
\<close>

lemma for_node_layers:
  "for_node ns (JDict [(''name'', a), (''type'', b), (''architecture'', c), (''layers'', JList xs)])
   = JDict [(''name'', a), (''type'', b), (''architecture'', c), (''layers'', JList (xs @ map layer ns))]"
  by (induction ns arbitrary: xs) simp_all

lemma build_output_eq:
  "build_output model = JDict
     [(''name'', JStr (graph_proto.name (graph model))),
      (''type'', JStr ''ONNX''),
      (''architecture'', JStr (domain model)),
      (''layers'', JList (map layer (node (graph model))))]"
  by (simp add: build_output_def for_node_layers)

text \<open>
  When a load succeeds: the path holds a model file, and at every location of its
  external data, none of which the library refuses, there is a regular file next to it.
  So a load looks at the file system at the path of the model and at the paths of its
  external data only.
\<close>

lemma load_external_data_for_model_None:
  "load_external_data_for_model fs base_dir locations = None \<longleftrightarrow>
   list_all (\<lambda>location. \<not> bad_location location \<and> is_file fs (path_join base_dir location))
     locations"
  by (induction locations) simp_all

lemma onnx_load_Inr:
  "onnx_load fs path = Inr m \<longleftrightarrow>
   (\<exists>locations. fs path = Some (ModelFile m locations)
      \<and> list_all (\<lambda>location. \<not> bad_location location
            \<and> is_file fs (path_join (dirname path) location)) locations)"
  by (auto simp: onnx_load_def load_external_data_for_model_None [symmetric]
      split: option.splits file_content.splits)

lemma load_external_data_for_model_cong:
  "list_all (\<lambda>location. is_file fs (path_join base_dir location)
       = is_file fs' (path_join base_dir location)) locations \<Longrightarrow>
   load_external_data_for_model fs base_dir locations
     = load_external_data_for_model fs' base_dir locations"
  by (induction locations) simp_all

text \<open>
  The three ways through \<^verbatim>\<open>main\<close>: no argument, a file that loads, a load that raises.
\<close>

lemma main_no_argument:
  "length argv < 2 \<Longrightarrow>
   main fs argv w = (Inr (), w\<lparr>stdout := stdout w @ [''Usage: python parse_onnx.py <model_path>'']\<rparr>)"
  by (simp add: main_def print_def)

lemma main_model_file:
  "2 \<le> length argv \<Longrightarrow> onnx_load fs (argv ! 1) = Inr m \<Longrightarrow>
   main fs argv w =
     (Inr (), w\<lparr>opened := opened w @ [argv ! 1],
                stdout := stdout w @ [json_dumps (build_output m) 4]\<rparr>)"
  by (simp add: main_def load_def print_def)

lemma main_load_fails:
  "2 \<le> length argv \<Longrightarrow> onnx_load fs (argv ! 1) = Inl e \<Longrightarrow>
   main fs argv w = (Inl e, w\<lparr>opened := opened w @ [argv ! 1]\<rparr>)"
  by (simp add: main_def load_def)

lemma parse_onnx_model_file:
  "2 \<le> length argv \<Longrightarrow> onnx_load fs (argv ! 1) = Inr m \<Longrightarrow>
   parse_onnx fs argv =
     (0, \<lparr>stdout = [json_dumps (build_output m) 4], stderr = [], opened = [argv ! 1]\<rparr>)"
  by (simp add: parse_onnx_def main_model_file io0_def)

section \<open>Claims about \<^verbatim>\<open>parse_onnx.py\<close>\<close>

text \<open>
  Claim C2, as stated: every record of the \<^verbatim>\<open>layers\<close> array has an empty \<^verbatim>\<open>parameters\<close>
  field, and its \<^verbatim>\<open>weights\<close> field is absent from the JSON document. The second half fails:
  line 25 stores \<^verbatim>\<open>None\<close> under the key \<^verbatim>\<open>weights\<close>, and the encoder writes a key whose
  value is \<^verbatim>\<open>None\<close> as \<^verbatim>\<open>"weights": null\<close>. For a model file with one node, the record
  that is printed has the key, and the printed text contains it.
\<close>

theorem layer_weights_absent_counterexample:
  "stdout (snd (parse_onnx
      [''m.onnx'' \<mapsto> ModelFile
         \<lparr>graph = \<lparr>graph_proto.name = ''g'',
                    node = [\<lparr>node_proto.name = ''n'', op_type = ''Relu''\<rparr>]\<rparr>,
          domain = ''d''\<rparr> []]
      [''parse_onnx.py'', ''m.onnx'']))
     = [json_dumps (JDict
          [(''name'', JStr ''g''), (''type'', JStr ''ONNX''), (''architecture'', JStr ''d''),
           (''layers'', JList [JDict
              [(''name'', JStr ''n''), (''type'', JStr ''Relu''),
               (''parameters'', JDict []), (''weights'', JNull)]])]) 4]
   \<and> ''weights'' \<in> set (json_keys (JDict
              [(''name'', JStr ''n''), (''type'', JStr ''Relu''),
               (''parameters'', JDict []), (''weights'', JNull)]))
   \<and> sublist ([CHR 0x22] @ ''weights'' @ [CHR 0x22] @ '': null'')
        (json_dumps (JDict
          [(''name'', JStr ''g''), (''type'', JStr ''ONNX''), (''architecture'', JStr ''d''),
           (''layers'', JList [JDict
              [(''name'', JStr ''n''), (''type'', JStr ''Relu''),
               (''parameters'', JDict []), (''weights'', JNull)]])]) 4)"
proof -
  have "sublist ([CHR 0x22] @ ''weights'' @ [CHR 0x22] @ '': null'')
        (json_dumps (JDict
          [(''name'', JStr ''g''), (''type'', JStr ''ONNX''), (''architecture'', JStr ''d''),
           (''layers'', JList [JDict
              [(''name'', JStr ''n''), (''type'', JStr ''Relu''),
               (''parameters'', JDict []), (''weights'', JNull)]])]) 4)"
    by code_simp
  then show ?thesis
    by (simp add: parse_onnx_def main_def load_def onnx_load_def print_def io0_def
        build_output_def layer_def)
qed

text \<open>
  Claim C2, amended: for every model file that loads, every record of the \<^verbatim>\<open>layers\<close>
  array of the printed document has its \<^verbatim>\<open>parameters\<close> field equal to the empty object and
  its \<^verbatim>\<open>weights\<close> field present with the value \<^verbatim>\<open>null\<close>.
\<close>

theorem layer_placeholders:
  assumes "2 \<le> length argv" and "onnx_load fs (argv ! 1) = Inr m"
  shows "\<exists>layers.
      stdout (snd (parse_onnx fs argv)) = [json_dumps (build_output m) 4]
    \<and> json_get ''layers'' (build_output m) = Some (JList layers)
    \<and> length layers = length (node (graph m))
    \<and> (\<forall>l \<in> set layers.
          json_get ''parameters'' l = Some (JDict []) \<and> json_get ''weights'' l = Some JNull)"
proof -
  let ?layers = "map layer (node (graph m))"
  have "stdout (snd (parse_onnx fs argv)) = [json_dumps (build_output m) 4]"
    using parse_onnx_model_file [of argv fs m] assms by simp
  moreover have "json_get ''layers'' (build_output m) = Some (JList ?layers)"
    by (simp add: build_output_eq)
  moreover have "\<forall>l \<in> set ?layers.
      json_get ''parameters'' l = Some (JDict []) \<and> json_get ''weights'' l = Some JNull"
    by (auto simp: layer_def)
  moreover have "length ?layers = length (node (graph m))" by simp
  ultimately show ?thesis by blast
qed

theorem layer_placeholders_witness:
  "2 \<le> length example_argv \<and> onnx_load example_fs (example_argv ! 1) = Inr example_model
   \<and> (\<exists>layers.
      stdout (snd (parse_onnx example_fs example_argv))
        = [json_dumps (build_output example_model) 4]
    \<and> json_get ''layers'' (build_output example_model) = Some (JList layers)
    \<and> length layers = length (node (graph example_model))
    \<and> (\<forall>l \<in> set layers.
          json_get ''parameters'' l = Some (JDict []) \<and> json_get ''weights'' l = Some JNull))
   \<and> length (node (graph example_model)) = 2"
proof -
  have h1: "2 \<le> length example_argv" by (simp add: example_argv_def)
  have h2: "onnx_load example_fs (example_argv ! 1) = Inr example_model"
    by (simp add: example_argv_def example_fs_def onnx_load_def dirname_def path_join_def
        bad_location_def is_file_def)
  have h3: "length (node (graph example_model)) = 2" by (simp add: example_model_def)
  show ?thesis
    using h1 h2 h3 layer_placeholders [of example_argv example_fs example_model]
    by blast
qed

text \<open>
  Claim C3: for every model file that loads, the script prints one JSON document; its
  \<^verbatim>\<open>layers\<close> array has as many records as the graph has nodes, and the records follow the
  nodes in graph order, the \<^verbatim>\<open>name\<close> and \<^verbatim>\<open>type\<close> of each record being the name and the
  operator type of its node.
\<close>

theorem layers_follow_graph_nodes:
  assumes "2 \<le> length argv" and "onnx_load fs (argv ! 1) = Inr m"
  shows "\<exists>layers.
      parse_onnx fs argv =
        (0, \<lparr>stdout = [json_dumps (build_output m) 4], stderr = [], opened = [argv ! 1]\<rparr>)
    \<and> json_get ''layers'' (build_output m) = Some (JList layers)
    \<and> length layers = length (node (graph m))
    \<and> map (json_get ''name'') layers = map (\<lambda>n. Some (JStr (node_proto.name n))) (node (graph m))
    \<and> map (json_get ''type'') layers = map (\<lambda>n. Some (JStr (op_type n))) (node (graph m))"
proof -
  let ?layers = "map layer (node (graph m))"
  have "json_get ''layers'' (build_output m) = Some (JList ?layers)"
    by (simp add: build_output_eq)
  moreover have "map (json_get ''name'') ?layers = map (\<lambda>n. Some (JStr (node_proto.name n))) (node (graph m))"
    by (simp add: layer_def)
  moreover have "map (json_get ''type'') ?layers = map (\<lambda>n. Some (JStr (op_type n))) (node (graph m))"
    by (simp add: layer_def)
  moreover have "length ?layers = length (node (graph m))" by simp
  ultimately show ?thesis
    using parse_onnx_model_file [of argv fs m] assms by blast
qed

theorem layers_follow_graph_nodes_witness:
  "2 \<le> length example_argv \<and> onnx_load example_fs (example_argv ! 1) = Inr example_model
   \<and> (\<exists>layers.
      parse_onnx example_fs example_argv =
        (0, \<lparr>stdout = [json_dumps (build_output example_model) 4], stderr = [],
             opened = [''model.onnx'']\<rparr>)
    \<and> json_get ''layers'' (build_output example_model) = Some (JList layers)
    \<and> length layers = 2
    \<and> map (json_get ''name'') layers = [Some (JStr ''conv0''), Some (JStr ''relu0'')]
    \<and> map (json_get ''type'') layers = [Some (JStr ''Conv''), Some (JStr ''Relu'')])"
proof -
  have h1: "2 \<le> length example_argv" by (simp add: example_argv_def)
  have h2: "onnx_load example_fs (example_argv ! 1) = Inr example_model"
    by (simp add: example_argv_def example_fs_def onnx_load_def dirname_def path_join_def
        bad_location_def is_file_def)
  show ?thesis
    using h1 h2 layers_follow_graph_nodes [of example_argv example_fs example_model]
    by (simp add: example_argv_def example_model_def numeral_2_eq_2)
qed

text \<open>
  Claim C4: with fewer than two entries in the argument vector, \<^verbatim>\<open>main\<close> prints the usage
  message and returns; nothing else changes, so no path is handed to \<^verbatim>\<open>onnx.load\<close>.
\<close>

theorem no_argument_prints_usage:
  "length argv < 2 \<Longrightarrow>
   main fs argv w =
     (Inr (), w\<lparr>stdout := stdout w @ [''Usage: python parse_onnx.py <model_path>'']\<rparr>)
   \<and> opened (snd (main fs argv w)) = opened w"
  by (simp add: main_no_argument)

theorem no_argument_prints_usage_witness:
  "length [''parse_onnx.py''] < 2
   \<and> main example_fs [''parse_onnx.py''] io0 =
       (Inr (), \<lparr>stdout = [''Usage: python parse_onnx.py <model_path>''], stderr = [],
                 opened = []\<rparr>)"
  using no_argument_prints_usage [of "[''parse_onnx.py'']" example_fs io0]
  by (simp add: io0_def)

text \<open>
  Claim C5: when the path given does not exist, the \<^verbatim>\<open>FileNotFoundError\<close> of the load
  leaves \<^verbatim>\<open>main\<close> uncaught, the process ends with it (exit status 1, the error on standard
  error) and nothing is printed on standard output.
\<close>

theorem missing_file_propagates:
  assumes "2 \<le> length argv" and "fs (argv ! 1) = None"
  shows "main fs argv io0 =
           (Inl (FileNotFoundError (argv ! 1)),
            \<lparr>stdout = [], stderr = [], opened = [argv ! 1]\<rparr>)
       \<and> parse_onnx fs argv =
           (1, \<lparr>stdout = [], stderr = [FileNotFoundError (argv ! 1)], opened = [argv ! 1]\<rparr>)"
proof -
  have "onnx_load fs (argv ! 1) = Inl (FileNotFoundError (argv ! 1))"
    using assms(2) by (simp add: onnx_load_def)
  with assms(1) have "main fs argv io0 =
      (Inl (FileNotFoundError (argv ! 1)), io0\<lparr>opened := opened io0 @ [argv ! 1]\<rparr>)"
    by (rule main_load_fails)
  then show ?thesis
    by (simp add: parse_onnx_def io0_def)
qed

theorem missing_file_propagates_witness:
  "2 \<le> length [''parse_onnx.py'', ''absent.onnx''] \<and> example_fs ''absent.onnx'' = None
   \<and> parse_onnx example_fs [''parse_onnx.py'', ''absent.onnx''] =
       (1, \<lparr>stdout = [], stderr = [FileNotFoundError ''absent.onnx''],
             opened = [''absent.onnx'']\<rparr>)"
  using missing_file_propagates [of "[''parse_onnx.py'', ''absent.onnx'']" example_fs]
  by (simp add: example_fs_def)

text \<open>
  Claim C6: for every model file that loads, the printed document has the graph's name
  under \<^verbatim>\<open>name\<close>, the model's domain under \<^verbatim>\<open>architecture\<close> and the literal \<^verbatim>\<open>ONNX\<close> under
  \<^verbatim>\<open>type\<close>.
\<close>

theorem document_fields:
  assumes "2 \<le> length argv" and "onnx_load fs (argv ! 1) = Inr m"
  shows "stdout (snd (parse_onnx fs argv)) = [json_dumps (build_output m) 4]
       \<and> json_get ''name'' (build_output m) = Some (JStr (graph_proto.name (graph m)))
       \<and> json_get ''architecture'' (build_output m) = Some (JStr (domain m))
       \<and> json_get ''type'' (build_output m) = Some (JStr ''ONNX'')"
  using parse_onnx_model_file [of argv fs m] assms by (simp add: build_output_eq)

theorem document_fields_witness:
  "2 \<le> length example_argv \<and> onnx_load example_fs (example_argv ! 1) = Inr example_model
   \<and> stdout (snd (parse_onnx example_fs example_argv))
       = [json_dumps (build_output example_model) 4]
   \<and> json_get ''name'' (build_output example_model) = Some (JStr ''tiny'')
   \<and> json_get ''architecture'' (build_output example_model) = Some (JStr ''ai.example'')
   \<and> json_get ''type'' (build_output example_model) = Some (JStr ''ONNX'')"
proof -
  have h1: "2 \<le> length example_argv" by (simp add: example_argv_def)
  have h2: "onnx_load example_fs (example_argv ! 1) = Inr example_model"
    by (simp add: example_argv_def example_fs_def onnx_load_def dirname_def path_join_def
        bad_location_def is_file_def)
  show ?thesis
    using h1 h2 document_fields [of example_argv example_fs example_model]
    by (simp add: example_model_def)
qed

text \<open>
  Claim C9, as stated: two runs with the same first command-line argument and the same
  contents of the model file it names print the same. This fails for a model file that
  keeps tensor data in another file: the load also opens that file. With the same
  argument and the same model file \<^verbatim>\<open>models/ext.onnx\<close>, which refers to \<^verbatim>\<open>weights.bin\<close>, the
  run prints the document and exits with status 0 when \<^verbatim>\<open>models/weights.bin\<close> is there, and
  prints nothing and exits with status 1 when it is not.
\<close>

theorem external_data_changes_output_counterexample:
  "first_argument [''parse_onnx.py'', ''models/ext.onnx'']
     = first_argument [''parse_onnx.py'', ''models/ext.onnx'']
   \<and> [''models/ext.onnx'' \<mapsto> ModelFile
          \<lparr>graph = \<lparr>graph_proto.name = ''g'',
                     node = [\<lparr>node_proto.name = ''n'', op_type = ''Relu''\<rparr>]\<rparr>,
           domain = ''d''\<rparr> [''weights.bin''],
        ''models/weights.bin'' \<mapsto> OtherFile] ''models/ext.onnx''
     = [''models/ext.onnx'' \<mapsto> ModelFile
          \<lparr>graph = \<lparr>graph_proto.name = ''g'',
                     node = [\<lparr>node_proto.name = ''n'', op_type = ''Relu''\<rparr>]\<rparr>,
           domain = ''d''\<rparr> [''weights.bin'']] ''models/ext.onnx''
   \<and> parse_onnx
        [''models/ext.onnx'' \<mapsto> ModelFile
          \<lparr>graph = \<lparr>graph_proto.name = ''g'',
                     node = [\<lparr>node_proto.name = ''n'', op_type = ''Relu''\<rparr>]\<rparr>,
           domain = ''d''\<rparr> [''weights.bin''],
         ''models/weights.bin'' \<mapsto> OtherFile]
        [''parse_onnx.py'', ''models/ext.onnx'']
     = (0, \<lparr>stdout = [json_dumps (JDict
              [(''name'', JStr ''g''), (''type'', JStr ''ONNX''), (''architecture'', JStr ''d''),
               (''layers'', JList [JDict
                  [(''name'', JStr ''n''), (''type'', JStr ''Relu''),
                   (''parameters'', JDict []), (''weights'', JNull)]])]) 4],
             stderr = [], opened = [''models/ext.onnx'']\<rparr>)
   \<and> fst (parse_onnx
        [''models/ext.onnx'' \<mapsto> ModelFile
          \<lparr>graph = \<lparr>graph_proto.name = ''g'',
                     node = [\<lparr>node_proto.name = ''n'', op_type = ''Relu''\<rparr>]\<rparr>,
           domain = ''d''\<rparr> [''weights.bin'']]
        [''parse_onnx.py'', ''models/ext.onnx'']) = 1
   \<and> stdout (snd (parse_onnx
        [''models/ext.onnx'' \<mapsto> ModelFile
          \<lparr>graph = \<lparr>graph_proto.name = ''g'',
                     node = [\<lparr>node_proto.name = ''n'', op_type = ''Relu''\<rparr>]\<rparr>,
           domain = ''d''\<rparr> [''weights.bin'']]
        [''parse_onnx.py'', ''models/ext.onnx''])) = []"
  by (simp add: first_argument_def parse_onnx_def main_def load_def onnx_load_def print_def
      io0_def build_output_def layer_def dirname_def path_join_def bad_location_def
      is_file_def)

text \<open>
  Claim C9, amended: two runs behave alike (the same exit status, the same standard output
  and standard error, the same path loaded) when they agree on the first command-line
  argument (or both have none), on what the file system holds at that path and, for each
  location of external data that the model file there refers to, on whether a regular
  file is at that location next to the model file. The name of the program and any
  further argument do not matter, nor does any other file.
\<close>

theorem output_depends_on_loaded_files_only:
  assumes "first_argument argv = first_argument argv'"
    and "\<forall>p. first_argument argv = Some p \<longrightarrow>
           fs p = fs' p
         \<and> (\<forall>m locations. fs p = Some (ModelFile m locations) \<longrightarrow>
               (\<forall>location \<in> set locations.
                  is_file fs (path_join (dirname p) location)
                    = is_file fs' (path_join (dirname p) location)))"
  shows "parse_onnx fs argv = parse_onnx fs' argv'"
proof (cases "length argv < 2")
  case True
  with assms(1) have "length argv' < 2"
    by (simp add: first_argument_def split: if_splits)
  with True show ?thesis
    by (simp add: parse_onnx_def main_no_argument)
next
  case False
  with assms(1) have len: "\<not> length argv' < 2" and same: "argv ! 1 = argv' ! 1"
    by (simp_all add: first_argument_def split: if_splits)
  let ?p = "argv ! 1"
  from False have arg: "first_argument argv = Some ?p"
    by (simp add: first_argument_def)
  with assms(2) have same_file: "fs ?p = fs' ?p"
    by blast
  have "onnx_load fs ?p = onnx_load fs' ?p"
  proof (cases "fs ?p")
    case None
    with same_file show ?thesis by (simp add: onnx_load_def)
  next
    case (Some content)
    with same_file have other: "fs' ?p = Some content" by simp
    show ?thesis
    proof (cases content)
      case (ModelFile m locations)
      with Some arg assms(2) have "\<forall>location \<in> set locations.
          is_file fs (path_join (dirname ?p) location)
            = is_file fs' (path_join (dirname ?p) location)"
        by blast
      then have "load_external_data_for_model fs (dirname ?p) locations
          = load_external_data_for_model fs' (dirname ?p) locations"
        by (intro load_external_data_for_model_cong) (simp add: list_all_iff)
      with Some other ModelFile show ?thesis by (simp add: onnx_load_def)
    next
      case OtherFile
      with Some other show ?thesis by (simp add: onnx_load_def)
    next
      case Directory
      with Some other show ?thesis by (simp add: onnx_load_def)
    qed
  qed
  with False len same show ?thesis
    by (simp add: parse_onnx_def main_def load_def)
qed

theorem output_depends_on_loaded_files_only_witness:
  "first_argument [''parse_onnx.py'', ''model.onnx'', ''--verbose'', ''notes.txt'']
     = first_argument [''./tool'', ''model.onnx'']
   \<and> parse_onnx example_fs [''parse_onnx.py'', ''model.onnx'', ''--verbose'', ''notes.txt'']
     = parse_onnx (example_fs(''notes.txt'' := None)) [''./tool'', ''model.onnx'']
   \<and> fst (parse_onnx example_fs [''parse_onnx.py'', ''model.onnx'', ''--verbose'', ''notes.txt''])
     = 0"
proof -
  have h1: "first_argument [''parse_onnx.py'', ''model.onnx'', ''--verbose'', ''notes.txt'']
     = first_argument [''./tool'', ''model.onnx'']"
    by (simp add: first_argument_def)
  have h2: "\<forall>p. first_argument [''parse_onnx.py'', ''model.onnx'', ''--verbose'', ''notes.txt'']
        = Some p \<longrightarrow>
          example_fs p = (example_fs(''notes.txt'' := None)) p
        \<and> (\<forall>m locations. example_fs p = Some (ModelFile m locations) \<longrightarrow>
              (\<forall>location \<in> set locations.
                 is_file example_fs (path_join (dirname p) location)
                   = is_file (example_fs(''notes.txt'' := None))
                       (path_join (dirname p) location)))"
    by (simp add: first_argument_def example_fs_def dirname_def path_join_def is_file_def)
  have h3: "fst (parse_onnx example_fs
      [''parse_onnx.py'', ''model.onnx'', ''--verbose'', ''notes.txt'']) = 0"
    by (simp add: parse_onnx_def main_def load_def onnx_load_def print_def io0_def
        example_fs_def dirname_def path_join_def bad_location_def is_file_def)
  show ?thesis
    using h1 h2 h3
      output_depends_on_loaded_files_only
        [of "[''parse_onnx.py'', ''model.onnx'', ''--verbose'', ''notes.txt'']"
            "[''./tool'', ''model.onnx'']" example_fs "example_fs(''notes.txt'' := None)"]
    by blast
qed

text \<open>
  Claim C10: with fewer than two entries in the argument vector, \<^verbatim>\<open>main\<close> returns
  normally, the process exits with status 0, and the usage message is on standard output
  while standard error stays empty.
\<close>

theorem no_argument_exit_status:
  "length argv < 2 \<Longrightarrow>
   fst (main fs argv io0) = Inr ()
   \<and> parse_onnx fs argv =
       (0, \<lparr>stdout = [''Usage: python parse_onnx.py <model_path>''], stderr = [],
             opened = []\<rparr>)"
  by (simp add: parse_onnx_def main_no_argument io0_def)

theorem no_argument_exit_status_witness:
  "length ([] :: string list) < 2
   \<and> parse_onnx example_fs [] =
       (0, \<lparr>stdout = [''Usage: python parse_onnx.py <model_path>''], stderr = [],
             opened = []\<rparr>)"
  using no_argument_exit_status [of "[]" example_fs] by simp

section \<open>Claims about \<^verbatim>\<open>create_and_save_model.py\<close>\<close>

text \<open>
  The check accepts a script whose statements all start in column 0 and open no block,
  and it stops at the first statement of such a script that starts further right.
\<close>

lemma check_indentation_flat:
  "list_all (\<lambda>l. column l = 0 \<and> \<not> opens_block l) ls \<Longrightarrow>
   check_indentation [0] False prev ls = None"
  by (induction ls arbitrary: prev) simp_all

lemma check_indentation_stray:
  "list_all (\<lambda>l. column l = 0 \<and> \<not> opens_block l) ls \<Longrightarrow> 0 < column l \<Longrightarrow>
   check_indentation [0] False prev (ls @ l # rest)
     = Some (IndentationError ''unexpected indent'' (lineno l))"
  by (induction ls arbitrary: prev) simp_all

text \<open>
  The one line that keeps the file from compiling is line 54: with that line moved to
  column 0, the check passes and every call of the script is made, in the order of the
  lines.
\<close>

lemma python_without_stray_indent:
  "python (map (\<lambda>l. if lineno l = 54 then l\<lparr>column := 0\<rparr> else l) create_and_save_model)
   = (Inr (), concat (map calls create_and_save_model))"
  by (simp add: python_def create_and_save_model_def stmt_def header_def)

lemma calls_of_the_script:
  "filter (\<lambda>c. case c of Print _ \<Rightarrow> False | Import _ \<Rightarrow> False | _ \<Rightarrow> True)
     (concat (map calls create_and_save_model))
   = [Sequential [Dense 10 ''relu'' (Some 5), Dense 1 ''sigmoid'' None],
      Compile ''adam'' ''binary_crossentropy'' [''accuracy''],
      Random_rand 100 5, Random_randint 0 2 100 1, Fit 5 0, Save ''./simple_tf_model'',
      Os_walk ''./simple_tf_model'', Load ''./simple_tf_model'', Random_rand 1 5,
      Call_loaded_model]"
  by (simp add: create_and_save_model_def stmt_def header_def model_save_path_def)

text \<open>
  Claim C1 says that running the script makes the directory \<^verbatim>\<open>./simple_tf_model\<close>, loads
  the model back from it and runs one inference call. The script as it is raises
  \<^verbatim>\<open>IndentationError: unexpected indent\<close> for line 54 when the interpreter compiles it, and
  makes no call at all.
\<close>

theorem demo_stops_at_line_54:
  "python create_and_save_model = (Inl (IndentationError ''unexpected indent'' 54), [])"
  by (simp add: python_def create_and_save_model_def stmt_def header_def)

text \<open>
  Claim C7 says that the inference call on the reloaded model returns a value between 0
  and 1. The call is written on line 58, and the run never makes it.
\<close>

theorem demo_makes_no_inference_call:
  "Call_loaded_model \<in> set (concat (map calls create_and_save_model))
   \<and> Call_loaded_model \<notin> set (snd (python create_and_save_model))"
  by (simp add: python_def create_and_save_model_def stmt_def header_def)

text \<open>
  Claim C8 says that the script trains the model for 5 epochs. The call of \<^verbatim>\<open>fit\<close> with
  \<^verbatim>\<open>epochs=5\<close> is written on line 25, and the run never makes it.
\<close>

theorem demo_runs_no_training_pass:
  "Fit 5 0 \<in> set (concat (map calls create_and_save_model))
   \<and> Fit 5 0 \<notin> set (snd (python create_and_save_model))"
  by (simp add: python_def create_and_save_model_def stmt_def header_def)

end
